theory Spec2Isabelle
  imports Complex_Main
begin

section \<open>Python values and dictionaries\<close>

text \<open>
  The module \<^verbatim>\<open>example_backend/llm_config.py\<close> keeps two module-level names:
  \<^verbatim>\<open>current_system_prompt\<close>, bound to a value, and \<^verbatim>\<open>llm_config\<close>, bound to a
  dictionary object that \<^verbatim>\<open>update_llm_config\<close> mutates in place.

  A Python value is an immutable scalar or a reference to a mutable object. The module
  does no arithmetic: it only stores values and hands them back, so a float is
  represented by the number its literal denotes. Dictionary keys are strings, as they
  are in the dictionary the module creates.
\<close>

datatype pyval =
    PyNone
  | PyBool bool
  | PyInt int
  | PyFloat real
  | PyStr string
  | PyRef nat

type_synonym pydict = "string \<rightharpoonup> pyval"

text \<open>
  Dictionary objects live in a heap, addressed by natural numbers; \<open>next_addr\<close> is the
  allocation pointer (every address below it has been handed out). The global name
  \<^verbatim>\<open>llm_config\<close> holds the address of its dictionary: no function of the module rebinds
  it, they assign through it.
\<close>

record module_state =
  current_system_prompt :: pyval
  llm_config :: nat
  heap :: "nat \<Rightarrow> pydict"
  next_addr :: nat

section \<open>The module\<close>

definition DEFAULT_SYSTEM_PROMPT :: string where
  "DEFAULT_SYSTEM_PROMPT =
     ''You are a compassionate and professional healthcare AI assistant conducting patient follow-up calls. Your primary goal is to ensure patient well-being and treatment adherence.\<newline>'' @
     ''\<newline>'' @
     ''Core Responsibilities:\<newline>'' @
     ''- Build rapport with warm, personalized greetings\<newline>'' @
     ''- Assess current health status and symptom progression\<newline>'' @
     ''- Verify medication adherence and address any side effects\<newline>'' @
     ''- Schedule or confirm upcoming appointments\<newline>'' @
     ''- Document patient concerns and questions\<newline>'' @
     ''- Provide clear follow-up instructions\<newline>'' @
     ''\<newline>'' @
     ''Communication Style:\<newline>'' @
     ''- Use empathetic and patient-centered language\<newline>'' @
     ''- Listen actively and acknowledge patient concerns\<newline>'' @
     ''- Speak clearly and avoid medical jargon\<newline>'' @
     ''- Allow patients to express themselves fully\<newline>'' @
     ''- Summarize key points for clarity\<newline>'' @
     ''\<newline>'' @
     ''Key Areas to Cover:\<newline>'' @
     ''1. Personal greeting and rapport building\<newline>'' @
     ''2. Current symptom assessment\<newline>'' @
     ''3. Medication review and adherence check\<newline>'' @
     ''4. Appointment scheduling or confirmation\<newline>'' @
     ''5. Address patient questions and concerns\<newline>'' @
     ''6. Provide clear next steps and follow-up plan\<newline>'' @
     ''\<newline>'' @
     ''Remember to maintain HIPAA compliance and patient confidentiality throughout the conversation.''"

text \<open>The dictionary display that initialises \<^verbatim>\<open>llm_config\<close>.\<close>

definition llm_config_display :: pydict where
  "llm_config_display =
     [''temperature'' \<mapsto> PyFloat 0.7,
      ''max_tokens'' \<mapsto> PyInt 2048,
      ''top_p'' \<mapsto> PyFloat 0.9,
      ''model'' \<mapsto> PyStr ''gpt-4'']"

text \<open>
  The state once the module body has run: the prompt is the default, and the dictionary
  is the first object allocated.
\<close>

definition module_init :: module_state where
  "module_init =
     \<lparr>current_system_prompt = PyStr DEFAULT_SYSTEM_PROMPT,
      llm_config = 0,
      heap = (\<lambda>_. Map.empty)(0 := llm_config_display),
      next_addr = 1\<rparr>"

definition get_system_prompt :: "module_state \<Rightarrow> pyval" where
  "get_system_prompt s = current_system_prompt s"

definition set_system_prompt :: "pyval \<Rightarrow> module_state \<Rightarrow> bool \<times> module_state" where
  "set_system_prompt new_prompt s = (True, s\<lparr>current_system_prompt := new_prompt\<rparr>)"

text \<open>
  \<^verbatim>\<open>{"system_prompt": current_system_prompt, **llm_config}\<close> builds a new dictionary:
  first the prompt, then every item of \<^verbatim>\<open>llm_config\<close>, a later item replacing an
  earlier one with the same key. The result is the address of the new object.
\<close>

definition get_llm_config :: "module_state \<Rightarrow> nat \<times> module_state" where
  "get_llm_config s =
     (let d = [''system_prompt'' \<mapsto> current_system_prompt s] ++ heap s (llm_config s);
          a = next_addr s
      in (a, s\<lparr>heap := (heap s)(a := d), next_addr := Suc a\<rparr>))"

text \<open>
  The loop of \<^verbatim>\<open>update_llm_config\<close> over \<^verbatim>\<open>config_updates.items()\<close>, the items in the
  order the mapping yields them: \<^verbatim>\<open>if key in llm_config: llm_config[key] = value\<close>.
\<close>

fun update_loop :: "(string \<times> pyval) list \<Rightarrow> module_state \<Rightarrow> module_state" where
  "update_loop [] s = s"
| "update_loop ((key, val) # items) s =
     update_loop items
       (if heap s (llm_config s) key \<noteq> None
        then s\<lparr>heap := (heap s)(llm_config s := (heap s (llm_config s))(key \<mapsto> val))\<rparr>
        else s)"

definition update_llm_config ::
  "(string \<times> pyval) list \<Rightarrow> module_state \<Rightarrow> bool \<times> module_state" where
  "update_llm_config config_updates s = (True, update_loop config_updates s)"

definition reset_to_default :: "module_state \<Rightarrow> bool \<times> module_state" where
  "reset_to_default s = (True, s\<lparr>current_system_prompt := PyStr DEFAULT_SYSTEM_PROMPT\<rparr>)"

text \<open>
  Python does not type the parameter \<^verbatim>\<open>config_updates\<close>: a call can pass any object, and
  the first thing the body does with it is \<^verbatim>\<open>config_updates.items()\<close>. A dictionary answers
  with its items; \<^verbatim>\<open>None\<close>, a boolean, a number, a string and a list have no attribute of
  that name, and the attribute lookup raises \<^verbatim>\<open>AttributeError\<close> before the loop starts and
  before anything is written. The body has no \<^verbatim>\<open>try\<close>, so the exception leaves the function.
\<close>

datatype pyobject =
    NoneObject
  | BoolObject bool
  | IntObject int
  | FloatObject real
  | StrObject string
  | ListObject "pyval list"
  | DictObject "(string \<times> pyval) list"

datatype exception = AttributeError

fun py_items :: "pyobject \<Rightarrow> exception + (string \<times> pyval) list" where
  "py_items (DictObject kvs) = Inr kvs"
| "py_items NoneObject = Inl AttributeError"
| "py_items (BoolObject b) = Inl AttributeError"
| "py_items (IntObject i) = Inl AttributeError"
| "py_items (FloatObject x) = Inl AttributeError"
| "py_items (StrObject str) = Inl AttributeError"
| "py_items (ListObject xs) = Inl AttributeError"

text \<open>
  A call of \<^verbatim>\<open>update_llm_config\<close> with an arbitrary object: the exception, or the result
  and the new state. On a dictionary it is \<open>update_llm_config\<close> above, applied to the items.
\<close>

definition update_llm_config_call ::
  "pyobject \<Rightarrow> module_state \<Rightarrow> exception + bool \<times> module_state" where
  "update_llm_config_call config_updates s =
     (case py_items config_updates of
        Inl e \<Rightarrow> Inl e
      | Inr kvs \<Rightarrow> Inr (update_llm_config kvs s))"

section \<open>Callers and what they observe\<close>

text \<open>
  ModelParameters, in the specification's vocabulary: the contents of the dictionary
  object the global name refers to.
\<close>

definition model_parameters :: "module_state \<Rightarrow> pydict" where
  "model_parameters s = heap s (llm_config s)"

text \<open>The contents of the record that a call of \<^verbatim>\<open>get_llm_config\<close> has returned.\<close>

definition record_of :: "nat \<times> module_state \<Rightarrow> pydict" where
  "record_of res = heap (snd res) (fst res)"


text \<open>The calls a client can make, and the state after a sequence of them.\<close>

datatype operation =
    GetSystemPrompt
  | SetSystemPrompt pyval
  | GetConfig
  | UpdateConfig "(string \<times> pyval) list"
  | ResetToDefault

fun apply_operation :: "operation \<Rightarrow> module_state \<Rightarrow> module_state" where
  "apply_operation GetSystemPrompt s = s"
| "apply_operation (SetSystemPrompt new_prompt) s = snd (set_system_prompt new_prompt s)"
| "apply_operation GetConfig s = snd (get_llm_config s)"
| "apply_operation (UpdateConfig config_updates) s = snd (update_llm_config config_updates s)"
| "apply_operation ResetToDefault s = snd (reset_to_default s)"

fun run :: "operation list \<Rightarrow> module_state \<Rightarrow> module_state" where
  "run [] s = s"
| "run (op # ops) s = run ops (apply_operation op s)"

text \<open>The dictionary of the module is an object that has been allocated.\<close>

definition allocated :: "module_state \<Rightarrow> bool" where
  "allocated s = (llm_config s < next_addr s)"


section \<open>The update loop\<close>

lemma update_loop_prompt: "current_system_prompt (update_loop ups s) = current_system_prompt s"
  by (induction ups s rule: update_loop.induct) simp_all

lemma update_loop_llm_config: "llm_config (update_loop ups s) = llm_config s"
  by (induction ups s rule: update_loop.induct) simp_all

lemma update_loop_next_addr: "next_addr (update_loop ups s) = next_addr s"
  by (induction ups s rule: update_loop.induct) simp_all

text \<open>
  With distinct keys, as the items of a mapping have, each key of the dictionary ends
  with the value the mapping supplies for it, or keeps its own.
\<close>

lemma update_loop_parameters:
  "distinct (map fst ups) \<Longrightarrow>
   model_parameters (update_loop ups s) k =
     (case model_parameters s k of
        None \<Rightarrow> None
      | Some old \<Rightarrow> (case map_of ups k of None \<Rightarrow> Some old | Some v \<Rightarrow> Some v))"
proof (induction ups s rule: update_loop.induct)
  case (1 s)
  then show ?case by (simp split: option.splits)
next
  case (2 key val items s)
  from 2 have "map_of items key = None"
    by (simp add: map_of_eq_None_iff)
  with 2 show ?case
    by (auto simp: model_parameters_def split: option.splits)
qed

lemma update_loop_unmatched:
  "\<forall>key \<in> fst ` set ups. model_parameters s key = None \<Longrightarrow> update_loop ups s = s"
  by (induction ups s rule: update_loop.induct) (auto simp: model_parameters_def)

lemma dom_setitem_present: "d key \<noteq> None \<Longrightarrow> dom (d(key \<mapsto> val)) = dom d"
  by auto

lemma update_loop_dom: "dom (model_parameters (update_loop ups s)) = dom (model_parameters s)"
proof (induction ups s rule: update_loop.induct)
  case (1 s)
  show ?case by simp
next
  case (2 key val items s)
  let ?s' = "if heap s (llm_config s) key \<noteq> None
        then s\<lparr>heap := (heap s)(llm_config s := (heap s (llm_config s))(key \<mapsto> val))\<rparr>
        else s"
  have "dom (model_parameters (update_loop ((key, val) # items) s)) = dom (model_parameters ?s')"
    using 2 by simp
  also have "\<dots> = dom (model_parameters s)"
    by (simp add: model_parameters_def dom_setitem_present del: dom_fun_upd)
  finally show ?case .
qed


section \<open>Sequences of calls\<close>

lemma apply_operation_allocated: "allocated s \<Longrightarrow> allocated (apply_operation op s)"
  by (cases op)
    (simp_all add: allocated_def set_system_prompt_def get_llm_config_def Let_def
      update_llm_config_def reset_to_default_def update_loop_llm_config update_loop_next_addr)

lemma apply_operation_dom:
  "allocated s \<Longrightarrow>
   dom (model_parameters (apply_operation op s)) = dom (model_parameters s)"
proof (cases op)
  case (UpdateConfig ups)
  then show ?thesis by (simp add: update_llm_config_def update_loop_dom)
qed (simp_all add: allocated_def model_parameters_def set_system_prompt_def
     get_llm_config_def Let_def reset_to_default_def)




lemma run_dom: "allocated s \<Longrightarrow> dom (model_parameters (run ops s)) = dom (model_parameters s)"
  by (induction ops arbitrary: s) (simp_all add: apply_operation_allocated apply_operation_dom)



lemma allocated_init: "allocated module_init"
  by (simp add: allocated_def module_init_def)

lemma model_parameters_init: "model_parameters module_init = llm_config_display"
  by (simp add: model_parameters_def module_init_def)

lemma dom_llm_config_display:
  "dom llm_config_display = {''temperature'', ''max_tokens'', ''top_p'', ''model''}"
  by (auto simp: llm_config_display_def)

lemma run_init_dom:
  "dom (model_parameters (run ops module_init)) =
     {''temperature'', ''max_tokens'', ''top_p'', ''model''}"
  by (simp add: run_dom allocated_init model_parameters_init dom_llm_config_display)

section \<open>Reading the configuration\<close>

lemma record_of_get_llm_config:
  "record_of (get_llm_config s) =
     [''system_prompt'' \<mapsto> current_system_prompt s] ++ model_parameters s"
  by (simp add: record_of_def get_llm_config_def Let_def model_parameters_def)


lemma update_present_key:
  assumes "model_parameters s key \<noteq> None"
  shows "record_of (get_llm_config (snd (update_llm_config [(key, val)] s))) =
     [''system_prompt'' \<mapsto> current_system_prompt s] ++ (model_parameters s)(key \<mapsto> val)"
  using assms
  by (auto simp: record_of_get_llm_config update_llm_config_def model_parameters_def)



section \<open>The properties of the specification\<close>

text \<open>
  Claim C1. For every update mapping and every state, \<^verbatim>\<open>update_llm_config\<close> returns
  \<open>True\<close>; afterwards every key that was in the dictionary and is in the mapping holds
  the supplied value, whatever its type, every other key of the dictionary keeps its
  value, and no key is added. With an empty mapping, or one none of whose keys is in the
  dictionary, the state is left as it was. The items of a mapping have distinct keys.
\<close>

theorem update_llm_config_overwrites_known_keys:
  assumes "distinct (map fst config_updates)"
  shows "fst (update_llm_config config_updates s) = True \<and>
    (\<forall>key. model_parameters (snd (update_llm_config config_updates s)) key =
       (case model_parameters s key of
          None \<Rightarrow> None
        | Some old \<Rightarrow>
            (case map_of config_updates key of None \<Rightarrow> Some old | Some v \<Rightarrow> Some v))) \<and>
    dom (model_parameters (snd (update_llm_config config_updates s))) = dom (model_parameters s) \<and>
    snd (update_llm_config [] s) = s \<and>
    ((\<forall>key \<in> fst ` set config_updates. model_parameters s key = None) \<longrightarrow>
       snd (update_llm_config config_updates s) = s)"
  using assms
  by (simp add: update_llm_config_def update_loop_parameters update_loop_dom
      update_loop_unmatched)

text \<open>
  The theorem at work on the initial state: a float and a string are stored under two
  known keys, the unknown key is dropped, an untouched key keeps its value; and a
  mapping with only an unknown key changes nothing.
\<close>

theorem update_llm_config_overwrites_known_keys_witness:
  "distinct (map fst [(''temperature'', PyFloat 0.2), (''max_tokens'', PyStr ''many''),
     (''unknown_key'', PyInt 123)]) \<and>
   fst (update_llm_config [(''temperature'', PyFloat 0.2), (''max_tokens'', PyStr ''many''),
     (''unknown_key'', PyInt 123)] module_init) = True \<and>
   model_parameters (snd (update_llm_config [(''temperature'', PyFloat 0.2),
     (''max_tokens'', PyStr ''many''), (''unknown_key'', PyInt 123)] module_init))
     ''temperature'' = Some (PyFloat 0.2) \<and>
   model_parameters (snd (update_llm_config [(''temperature'', PyFloat 0.2),
     (''max_tokens'', PyStr ''many''), (''unknown_key'', PyInt 123)] module_init))
     ''max_tokens'' = Some (PyStr ''many'') \<and>
   model_parameters (snd (update_llm_config [(''temperature'', PyFloat 0.2),
     (''max_tokens'', PyStr ''many''), (''unknown_key'', PyInt 123)] module_init))
     ''unknown_key'' = None \<and>
   model_parameters (snd (update_llm_config [(''temperature'', PyFloat 0.2),
     (''max_tokens'', PyStr ''many''), (''unknown_key'', PyInt 123)] module_init))
     ''model'' = Some (PyStr ''gpt-4'') \<and>
   distinct (map fst [(''unknown_key'', PyInt 123)]) \<and>
   model_parameters module_init ''unknown_key'' = None \<and>
   snd (update_llm_config [(''unknown_key'', PyInt 123)] module_init) = module_init"
proof -
  have d1: "distinct (map fst [(''temperature'', PyFloat 0.2), (''max_tokens'', PyStr ''many''),
     (''unknown_key'', PyInt 123)])"
    by simp
  have d2: "distinct (map fst [(''unknown_key'', PyInt 123)])"
    by simp
  show ?thesis
    using update_llm_config_overwrites_known_keys [OF d1, of module_init]
      update_llm_config_overwrites_known_keys [OF d2, of module_init]
    by (simp add: model_parameters_init llm_config_display_def)
qed

text \<open>
  Claim C2. After any sequence of calls made on the freshly loaded module, the keys of
  the parameter dictionary are exactly \<^verbatim>\<open>temperature\<close>, \<^verbatim>\<open>max_tokens\<close>, \<^verbatim>\<open>top_p\<close> and
  \<^verbatim>\<open>model\<close>: the calls change values only.
\<close>

theorem key_set_never_changes:
  "dom (model_parameters (run ops module_init)) =
     {''temperature'', ''max_tokens'', ''top_p'', ''model''}"
  by (rule run_init_dom)

text \<open>
  Claim C3. In every state and for every string \<open>X\<close>, \<^verbatim>\<open>set_system_prompt(X)\<close> followed
  by \<^verbatim>\<open>get_system_prompt()\<close> gives back \<open>X\<close>. The function checks nothing: it returns
  \<open>True\<close> and stores its argument for any value at all.
\<close>

theorem set_then_get_system_prompt:
  "get_system_prompt (snd (set_system_prompt (PyStr X) s)) = PyStr X \<and>
   fst (set_system_prompt new_prompt s) = True \<and>
   get_system_prompt (snd (set_system_prompt new_prompt s)) = new_prompt"
  by (simp add: set_system_prompt_def get_system_prompt_def)

text \<open>
  Claim C4. In every state, \<^verbatim>\<open>reset_to_default()\<close> returns \<open>True\<close> and afterwards
  \<^verbatim>\<open>get_system_prompt()\<close> returns the constant \<^verbatim>\<open>DEFAULT_SYSTEM_PROMPT\<close>, the prompt of
  the freshly loaded module; so it does after a \<^verbatim>\<open>set_system_prompt\<close> with any argument.
\<close>

theorem reset_restores_default:
  "fst (reset_to_default s) = True \<and>
   get_system_prompt (snd (reset_to_default s)) = PyStr DEFAULT_SYSTEM_PROMPT \<and>
   get_system_prompt (snd (reset_to_default (snd (set_system_prompt new_prompt s)))) =
     PyStr DEFAULT_SYSTEM_PROMPT \<and>
   get_system_prompt (snd (reset_to_default s)) = get_system_prompt module_init"
  by (simp add: reset_to_default_def get_system_prompt_def set_system_prompt_def module_init_def)

text \<open>
  Claim C5. In every state the module can reach, the record that \<^verbatim>\<open>get_llm_config()\<close>
  returns has exactly the keys \<^verbatim>\<open>system_prompt\<close>, \<^verbatim>\<open>temperature\<close>, \<^verbatim>\<open>max_tokens\<close>, \<^verbatim>\<open>top_p\<close>
  and \<^verbatim>\<open>model\<close>.
\<close>

theorem get_llm_config_keys:
  "dom (record_of (get_llm_config (run ops module_init))) =
     {''system_prompt'', ''temperature'', ''max_tokens'', ''top_p'', ''model''}"
  unfolding record_of_get_llm_config dom_map_add
  by (simp add: run_init_dom insert_commute)

text \<open>
  Claim C6. On the freshly loaded module, \<^verbatim>\<open>get_llm_config()\<close> returns the record with
  temperature 0.7, max_tokens 2048, top_p 0.9, model "gpt-4" and the default prompt under
  \<^verbatim>\<open>system_prompt\<close>, and nothing else; \<^verbatim>\<open>get_system_prompt()\<close> returns the default prompt.
\<close>

theorem initial_configuration:
  "record_of (get_llm_config module_init) =
     [''system_prompt'' \<mapsto> PyStr DEFAULT_SYSTEM_PROMPT,
      ''temperature'' \<mapsto> PyFloat 0.7,
      ''max_tokens'' \<mapsto> PyInt 2048,
      ''top_p'' \<mapsto> PyFloat 0.9,
      ''model'' \<mapsto> PyStr ''gpt-4''] \<and>
   get_system_prompt module_init = PyStr DEFAULT_SYSTEM_PROMPT"
  unfolding record_of_get_llm_config
  by (auto simp: model_parameters_def module_init_def llm_config_display_def
      get_system_prompt_def map_add_def fun_eq_iff)

text \<open>
  Claim C7. In every state the module can reach, after
  \<^verbatim>\<open>update_llm_config({"temperature": 0.2})\<close> the record of \<^verbatim>\<open>get_llm_config()\<close> has
  temperature 0.2, and max_tokens, top_p, model (and the prompt) are what they were.
\<close>

theorem update_temperature_frame:
  "let s = run ops module_init;
       s' = snd (update_llm_config [(''temperature'', PyFloat 0.2)] s)
   in record_of (get_llm_config s') ''temperature'' = Some (PyFloat 0.2) \<and>
      record_of (get_llm_config s') ''max_tokens'' = record_of (get_llm_config s) ''max_tokens'' \<and>
      record_of (get_llm_config s') ''top_p'' = record_of (get_llm_config s) ''top_p'' \<and>
      record_of (get_llm_config s') ''model'' = record_of (get_llm_config s) ''model'' \<and>
      record_of (get_llm_config s') ''system_prompt'' =
        record_of (get_llm_config s) ''system_prompt''"
proof -
  define s where "s = run ops module_init"
  have "''temperature'' \<in> dom (model_parameters s)"
    by (simp add: s_def run_init_dom)
  then have "model_parameters s ''temperature'' \<noteq> None"
    by auto
  then have "record_of (get_llm_config (snd (update_llm_config [(''temperature'', PyFloat 0.2)] s))) =
     [''system_prompt'' \<mapsto> current_system_prompt s] ++
       (model_parameters s)(''temperature'' \<mapsto> PyFloat 0.2)"
    by (rule update_present_key)
  then show ?thesis
    by (simp add: Let_def s_def [symmetric] record_of_get_llm_config [of s] map_add_def)
qed

text \<open>
  Claim C8, as the code has it. The claim says that no operation raises for any input.
  That fails for \<^verbatim>\<open>update_llm_config\<close>, which validates nothing and asks its argument for
  \<^verbatim>\<open>items()\<close>: given \<^verbatim>\<open>None\<close> or a list it raises \<^verbatim>\<open>AttributeError\<close>.
\<close>

theorem update_llm_config_raises_on_non_mapping:
  "update_llm_config_call NoneObject module_init = Inl AttributeError \<and>
   update_llm_config_call (ListObject [PyInt 1, PyInt 2]) module_init = Inl AttributeError"
  by (simp add: update_llm_config_call_def)

text \<open>
  Claim C8, amended. Every operation succeeds on every input of the type the specification
  gives it. In every state \<^verbatim>\<open>get_system_prompt()\<close> returns the stored prompt and
  \<^verbatim>\<open>get_llm_config()\<close> returns a reference to a new record that holds the prompt and the
  parameters; \<^verbatim>\<open>set_system_prompt\<close> returns \<open>True\<close> for any argument, \<^verbatim>\<open>reset_to_default\<close>
  returns \<open>True\<close>, and \<^verbatim>\<open>update_llm_config\<close> returns \<open>True\<close> for every mapping, whatever its
  keys and values. A call of \<^verbatim>\<open>update_llm_config\<close> raises exactly when its argument is
  not a mapping, and the only exception is \<^verbatim>\<open>AttributeError\<close>.
\<close>

theorem operations_succeed_on_declared_inputs:
  "get_system_prompt s = current_system_prompt s \<and>
   fst (get_llm_config s) = next_addr s \<and>
   record_of (get_llm_config s) =
     [''system_prompt'' \<mapsto> current_system_prompt s] ++ model_parameters s \<and>
   fst (set_system_prompt new_prompt s) = True \<and>
   fst (reset_to_default s) = True \<and>
   update_llm_config_call (DictObject kvs) s = Inr (True, update_loop kvs s) \<and>
   isl (update_llm_config_call obj s) = (\<nexists>items. obj = DictObject items) \<and>
   (update_llm_config_call obj s = Inl AttributeError) = (\<nexists>items. obj = DictObject items)"
proof -
  have readers: "get_system_prompt s = current_system_prompt s \<and>
      fst (get_llm_config s) = next_addr s \<and>
      record_of (get_llm_config s) =
        [''system_prompt'' \<mapsto> current_system_prompt s] ++ model_parameters s"
    by (simp add: get_system_prompt_def get_llm_config_def Let_def record_of_def
        model_parameters_def)
  have flags: "fst (set_system_prompt new_prompt s) = True \<and> fst (reset_to_default s) = True"
    by (simp add: set_system_prompt_def reset_to_default_def)
  have mapping: "update_llm_config_call (DictObject kvs) s = Inr (True, update_loop kvs s)"
    by (simp add: update_llm_config_call_def update_llm_config_def)
  have raises: "isl (update_llm_config_call obj s) = (\<nexists>items. obj = DictObject items) \<and>
      (update_llm_config_call obj s = Inl AttributeError) = (\<nexists>items. obj = DictObject items)"
    by (cases obj) (simp_all add: update_llm_config_call_def update_llm_config_def)
  from readers flags mapping raises show ?thesis by simp
qed


text \<open>
  Claim C10. In every state, \<^verbatim>\<open>set_system_prompt\<close> and \<^verbatim>\<open>reset_to_default\<close> leave the
  parameter dictionary as it was (the same object with the same contents), and
  \<^verbatim>\<open>update_llm_config\<close> leaves the stored prompt as it was.
\<close>

theorem mutators_touch_own_field:
  "model_parameters (snd (set_system_prompt new_prompt s)) = model_parameters s \<and>
   llm_config (snd (set_system_prompt new_prompt s)) = llm_config s \<and>
   model_parameters (snd (reset_to_default s)) = model_parameters s \<and>
   llm_config (snd (reset_to_default s)) = llm_config s \<and>
   current_system_prompt (snd (update_llm_config config_updates s)) = current_system_prompt s"
  by (simp add: model_parameters_def set_system_prompt_def reset_to_default_def
      update_llm_config_def update_loop_prompt)

end
